theory Spec2Isabelle
  imports Main
begin

section \<open>Values\<close>

text \<open>
  The pipeline of \<^verbatim>\<open>btc-pipeline.py\<close> threads a Python dict through five filters.
  Python values that end up in the context, in a user profile or in the JSON store are
  modelled by one datatype; \<open>JNull\<close> is Python's \<^verbatim>\<open>None\<close>. Dicts are association
  lists in insertion order, which is also the order \<^verbatim>\<open>json.dump\<close> writes them in.
  The type parameter \<open>'n\<close> is the type of Python floats.
\<close>

datatype 'n json =
    JNull
  | JBool bool
  | JNum 'n
  | JStr string
  | JList "'n json list"
  | JObj "(string \<times> 'n json) list"

section \<open>Float arithmetic\<close>

text \<open>
  The source computes with Python floats: \<^verbatim>\<open>*\<close>, \<^verbatim>\<open>+\<close>, \<^verbatim>\<open>round(x, 2)\<close>, the
  comparison \<^verbatim>\<open>x <= 0\<close> and the literals \<^verbatim>\<open>5.00\<close> and \<^verbatim>\<open>1.0\<close>. The filters take
  these operations as a parameter, so that what is proved of the filters holds for every
  arithmetic, exact or rounding, with or without NaN. \<open>gt_zero\<close> (\<^verbatim>\<open>x > 0\<close>) is not
  used by the source; it is there to state what the specification says of positive
  amounts.
\<close>

record 'n arith =
  mul :: "'n \<Rightarrow> 'n \<Rightarrow> 'n"
  add :: "'n \<Rightarrow> 'n \<Rightarrow> 'n"
  round2 :: "'n \<Rightarrow> 'n"
  le_zero :: "'n \<Rightarrow> bool"
  gt_zero :: "'n \<Rightarrow> bool"
  five :: "'n"
  one :: "'n"

text \<open>
  Two laws of float arithmetic are used below, and only where stated: \<^verbatim>\<open>5.00 * 1.0\<close>
  is \<^verbatim>\<open>5.00\<close>, and \<^verbatim>\<open>x > 0\<close> excludes \<^verbatim>\<open>x <= 0\<close>.
\<close>

definition arith_laws :: "'n arith \<Rightarrow> bool" where
  "arith_laws A \<longleftrightarrow>
     mul A (five A) (one A) = five A \<and> (\<forall>x. gt_zero A x \<longrightarrow> \<not> le_zero A x)"

subsection \<open>Binary floating point\<close>

text \<open>
  A Python float is an IEEE 754 binary64 number. \<open>Dbl m e\<close> stands for \<open>m * 2 ^ e\<close>,
  kept in lowest terms (\<open>m\<close> odd, or \<open>Dbl 0 0\<close> for zero), so that equal numbers are
  equal terms. Every operation computes the exact result and rounds it to 53 significant
  bits, to nearest and ties to even. The exponent is unbounded: overflow, subnormal
  numbers, infinities and NaN are not modelled, and the model is the float arithmetic of
  Python for results between \<open>2 ^ -1022\<close> and \<open>2 ^ 1024\<close> in magnitude.
\<close>

datatype dbl = Dbl int int

function normd :: "int \<Rightarrow> int \<Rightarrow> dbl" where
  "normd m e =
     (if m = 0 then Dbl 0 0
      else if even m then normd (m div 2) (e + 1)
      else Dbl m e)"
  by pat_completeness auto
termination
  by (relation "measure (\<lambda>(m, e). nat \<bar>m\<bar>)") auto

text \<open>The number of binary digits of a positive integer.\<close>

function bitlen :: "int \<Rightarrow> nat" where
  "bitlen n = (if n \<le> 0 then 0 else Suc (bitlen (n div 2)))"
  by pat_completeness auto
termination
  by (relation "measure nat") auto

text \<open>Round half to even of \<open>m / 2 ^ s\<close>, an integer.\<close>

definition rshift_even :: "int \<Rightarrow> nat \<Rightarrow> int" where
  "rshift_even m s =
     (let q = m div 2 ^ s; r = m mod 2 ^ s
      in if 2 * r > 2 ^ s \<or> (2 * r = 2 ^ s \<and> odd q) then q + 1 else q)"

text \<open>The binary64 number nearest to \<open>m * 2 ^ e\<close>.\<close>

definition rnd53 :: "int \<Rightarrow> int \<Rightarrow> dbl" where
  "rnd53 m e =
     (let b = bitlen \<bar>m\<bar>
      in if b \<le> 53 then normd m e
         else normd (rshift_even m (b - 53)) (e + int (b - 53)))"

text \<open>
  The binary64 number nearest to the fraction \<open>n / d\<close>, for \<open>d > 0\<close>: the quotient is
  computed to more than 53 bits, with a last bit that records whether the division left
  a remainder, and rounded once. A decimal literal such as \<^verbatim>\<open>0.92\<close> is \<open>ratio 92 100\<close>.
\<close>

definition ratio :: "int \<Rightarrow> int \<Rightarrow> dbl" where
  "ratio n d =
     (let k = bitlen d + 64;
          q = (n * 2 ^ k) div d;
          r = (n * 2 ^ k) mod d
      in rnd53 (2 * q + (if r = 0 then 0 else 1)) (- int k - 1))"

fun dmul :: "dbl \<Rightarrow> dbl \<Rightarrow> dbl" where
  "dmul (Dbl m1 e1) (Dbl m2 e2) = rnd53 (m1 * m2) (e1 + e2)"

fun dadd :: "dbl \<Rightarrow> dbl \<Rightarrow> dbl" where
  "dadd (Dbl m1 e1) (Dbl m2 e2) =
     (let e = min e1 e2
      in rnd53 (m1 * 2 ^ nat (e1 - e) + m2 * 2 ^ nat (e2 - e)) e)"

text \<open>
  \<^verbatim>\<open>round(x, 2)\<close> rounds the exact value of \<open>x\<close> half to even to a whole number of
  hundredths and returns the float nearest to that decimal.
\<close>

fun hundredths :: "dbl \<Rightarrow> int" where
  "hundredths (Dbl m e) =
     (if e \<ge> 0 then 100 * m * 2 ^ nat e else rshift_even (100 * m) (nat (- e)))"

definition dround2 :: "dbl \<Rightarrow> dbl" where
  "dround2 x = ratio (hundredths x) 100"

fun dle_zero :: "dbl \<Rightarrow> bool" where
  "dle_zero (Dbl m e) = (m \<le> 0)"

fun dgt_zero :: "dbl \<Rightarrow> bool" where
  "dgt_zero (Dbl m e) = (m > 0)"

definition binary64 :: "dbl arith" where
  "binary64 =
     \<lparr>mul = dmul, add = dadd, round2 = dround2, le_zero = dle_zero, gt_zero = dgt_zero,
      five = Dbl 5 0, one = Dbl 1 0\<rparr>"

section \<open>Strings\<close>

text \<open>
  Python strings are modelled by \<open>string\<close>. On 7-bit ASCII text one \<open>char\<close> is one
  code point, and there \<^verbatim>\<open>str.upper()\<close> maps the letters \<^verbatim>\<open>a\<close> to \<^verbatim>\<open>z\<close> to
  \<^verbatim>\<open>A\<close> to \<^verbatim>\<open>Z\<close> and leaves every other character alone, and \<^verbatim>\<open>str.strip()\<close>
  removes the leading and trailing characters for which \<^verbatim>\<open>str.isspace()\<close> holds:
  codes 9 to 13, 28 to 31 and 32. Beyond ASCII Python does more (it strips U+0085 and
  U+00A0 and changes the case of letters such as U+00E9), which \<open>py_upper\<close> and
  \<open>py_strip\<close> do not follow: they are the normalization of the source on ASCII text
  only, and what is stated below of the normalization of an arbitrary currency code is
  stated of codes for which \<open>is_ascii\<close> holds.
\<close>

definition is_ascii :: "string \<Rightarrow> bool" where
  "is_ascii s = list_all (\<lambda>c. \<not> digit7 c) s"

definition upper_char :: "char \<Rightarrow> char" where
  "upper_char c =
     (case map_of (zip ''abcdefghijklmnopqrstuvwxyz'' ''ABCDEFGHIJKLMNOPQRSTUVWXYZ'') c of
        None \<Rightarrow> c
      | Some C \<Rightarrow> C)"

definition py_upper :: "string \<Rightarrow> string" where
  "py_upper s = map upper_char s"

definition is_space :: "char \<Rightarrow> bool" where
  "is_space c \<longleftrightarrow>
     c \<in> set [CHR 0x09, CHR 0x0A, CHR 0x0B, CHR 0x0C, CHR 0x0D,
                CHR 0x1C, CHR 0x1D, CHR 0x1E, CHR 0x1F, CHR 0x20]"

definition py_strip :: "string \<Rightarrow> string" where
  "py_strip s = rev (dropWhile is_space (rev (dropWhile is_space s)))"

section \<open>Data model\<close>

text \<open>
  \<^verbatim>\<open>Transaction\<close> is a dataclass of three fields. Its annotations are not enforced, and
  the validation filter tests \<^verbatim>\<open>user_id\<close> for being a string and \<^verbatim>\<open>btc_amount\<close> for
  being \<^verbatim>\<open>None\<close>: so \<open>user_id\<close> is any value and \<open>btc_amount\<close> is a float or
  \<open>None\<close>. \<open>base_currency\<close> is a string, as annotated.
\<close>

record 'n Transaction =
  user_id :: "'n json"
  btc_amount :: "'n option"
  base_currency :: string

text \<open>
  The context is a dict. The model has one optional field for each key that the filters
  and the pipeline read or write; \<open>None\<close> says that the key is absent.
\<close>

record 'n Context =
  transaction :: "'n Transaction option"
  validated_at :: "string option"
  user :: "(string \<times> 'n json) list option"
  authenticated_at :: "string option"
  fiat_amount :: "'n option"
  fx_used :: "(string \<times> 'n) list option"
  transformed_at :: "string option"
  fee :: "'n option"
  total :: "'n option"
  fee_calculated_at :: "string option"
  persisted :: "bool option"
  storage_path :: "string option"
  status :: "string option"

text \<open>
  The exceptions that the source raises, by \<^verbatim>\<open>raise\<close> or in an operation on a value
  of the wrong kind or on a file that cannot be read; \<open>ValueError\<close>,
  \<open>PermissionError\<close> and \<open>KeyError\<close> carry their argument.
\<close>

datatype error =
    ValueError string
  | PermissionError string
  | KeyError string
  | TypeError
  | AttributeError
  | NotImplementedError
  | UnicodeDecodeError
  | RecursionError

text \<open>
  The JSON file of the storage filter, by what reading it does. The file is absent; or
  it holds text that \<^verbatim>\<open>json.load\<close> rejects with \<^verbatim>\<open>JSONDecodeError\<close>; or reading
  it raises another exception, as \<^verbatim>\<open>UnicodeDecodeError\<close> on bytes that are not UTF-8,
  \<^verbatim>\<open>PermissionError\<close> on a file that may not be opened, \<^verbatim>\<open>RecursionError\<close> on
  brackets nested too deep or \<^verbatim>\<open>ValueError\<close> on a number of too many digits; or it
  holds text that \<^verbatim>\<open>json.load\<close> reads as a value. What \<^verbatim>\<open>json.dump\<close> writes is
  read back as the value written.
\<close>

datatype 'n store = Missing | Malformed | Unreadable error | Stored "'n json"

text \<open>
  What the filters use of their environment: the files by path, the clock and
  \<^verbatim>\<open>os.path.abspath\<close>. \<open>timeline w k\<close> is the text that the \<open>k\<close>-th call of
  \<^verbatim>\<open>datetime.utcnow().isoformat()\<close> returns, and \<open>ticks w\<close> counts the calls made.
  Console output is left out.
\<close>

record 'n world =
  files :: "string \<Rightarrow> 'n store"
  ticks :: nat
  timeline :: "nat \<Rightarrow> string"
  abspath :: "string \<Rightarrow> string"

definition utcnow :: "'n world \<Rightarrow> string \<times> 'n world" where
  "utcnow w = (timeline w (ticks w), w\<lparr>ticks := Suc (ticks w)\<rparr>)"

text \<open>
  A filter raises or returns. The context and the transaction are mutated in place, so
  a raise leaves them as they were at that point: \<open>Raised\<close> carries that context.
\<close>

datatype 'n outcome =
    Raised error "'n Context" "'n world"
  | Returned "'n Context" "'n world"

type_synonym 'n filter = "'n Context \<Rightarrow> 'n world \<Rightarrow> 'n outcome"

fun outcome_context :: "'n outcome \<Rightarrow> 'n Context" where
  "outcome_context (Raised e c w) = c"
| "outcome_context (Returned c w) = c"

fun outcome_world :: "'n outcome \<Rightarrow> 'n world" where
  "outcome_world (Raised e c w) = w"
| "outcome_world (Returned c w) = w"

fun outcome_error :: "'n outcome \<Rightarrow> error option" where
  "outcome_error (Raised e c w) = Some e"
| "outcome_error (Returned c w) = None"

fun is_Returned :: "'n outcome \<Rightarrow> bool" where
  "is_Returned (Raised e c w) = False"
| "is_Returned (Returned c w) = True"

section \<open>The filters\<close>

definition Filter_process :: "'n filter" where
  "Filter_process ctx w = Raised NotImplementedError ctx w"

subsection \<open>Validation\<close>

definition SUPPORTED :: "string set" where
  "SUPPORTED = {''USD'', ''EUR'', ''GBP''}"

text \<open>
  \<^verbatim>\<open>not tx.user_id or not isinstance(tx.user_id, str)\<close> holds of the empty string and
  of every value that is not a string, whatever its truth value.
\<close>

fun invalid_user_id :: "'n json \<Rightarrow> bool" where
  "invalid_user_id (JStr s) = (s = [])"
| "invalid_user_id v = True"

definition ValidationFilter_process :: "'n arith \<Rightarrow> 'n filter" where
  "ValidationFilter_process A ctx w =
     (case transaction ctx of
        None \<Rightarrow> Raised (ValueError ''Missing transaction in context'') ctx w
      | Some tx \<Rightarrow>
          if invalid_user_id (user_id tx) then Raised (ValueError ''Invalid user_id'') ctx w
          else if (case btc_amount tx of None \<Rightarrow> True | Some x \<Rightarrow> le_zero A x)
            then Raised (ValueError ''btc_amount must be > 0'') ctx w
          else
            let tx' = tx\<lparr>base_currency := py_strip (py_upper (base_currency tx))\<rparr>;
                ctx' = ctx\<lparr>transaction := Some tx'\<rparr>
            in if base_currency tx' \<notin> SUPPORTED
               then Raised (ValueError (''Unsupported base currency: '' @ base_currency tx'))
                      ctx' w
               else
                 let (now, w') = utcnow w
                 in Returned (ctx'\<lparr>validated_at := Some now\<rparr>) w')"

subsection \<open>Authentication\<close>

text \<open>
  \<open>users_db\<close> maps strings to profiles, which are dicts. \<^verbatim>\<open>users_db.get(key)\<close> is
  \<^verbatim>\<open>None\<close> for a key that is not a string and raises \<^verbatim>\<open>TypeError\<close> for a list or a
  dict, which cannot be hashed. \<^verbatim>\<open>not user\<close> holds of \<^verbatim>\<open>None\<close> and of the empty
  dict.
\<close>

type_synonym 'n users_db = "string \<Rightarrow> (string \<times> 'n json) list option"

definition AuthFilter_process :: "'n users_db \<Rightarrow> 'n filter" where
  "AuthFilter_process users_db ctx w =
     (case transaction ctx of
        None \<Rightarrow> Raised (KeyError ''transaction'') ctx w
      | Some tx \<Rightarrow>
          (case user_id tx of
             JList xs \<Rightarrow> Raised TypeError ctx w
           | JObj kvs \<Rightarrow> Raised TypeError ctx w
           | uid \<Rightarrow>
               (case (case uid of JStr s \<Rightarrow> users_db s | _ \<Rightarrow> None) of
                  None \<Rightarrow> Raised (PermissionError ''User not authenticated'') ctx w
                | Some profile \<Rightarrow>
                    if profile = []
                    then Raised (PermissionError ''User not authenticated'') ctx w
                    else
                      let (now, w') = utcnow w
                      in Returned
                           (ctx\<lparr>user := Some profile, authenticated_at := Some now\<rparr>) w')))"

subsection \<open>Conversion\<close>

record 'n FxService =
  btc_usd :: 'n
  usd_to_eur :: 'n
  usd_to_gbp :: 'n

text \<open>The dict that \<^verbatim>\<open>btc_to_currency\<close> returns has the keys \<^verbatim>\<open>amount\<close> and \<^verbatim>\<open>fx\<close>.\<close>

record 'n conversion =
  amount :: 'n
  fx :: 'n

definition btc_to_currency ::
  "'n arith \<Rightarrow> 'n FxService \<Rightarrow> 'n \<Rightarrow> string \<Rightarrow> error + 'n conversion" where
  "btc_to_currency A self btc currency =
     (let usd_value = mul A btc (btc_usd self)
      in if currency = ''USD'' then Inr \<lparr>amount = usd_value, fx = one A\<rparr>
         else if currency = ''EUR''
           then Inr \<lparr>amount = mul A usd_value (usd_to_eur self), fx = usd_to_eur self\<rparr>
         else if currency = ''GBP''
           then Inr \<lparr>amount = mul A usd_value (usd_to_gbp self), fx = usd_to_gbp self\<rparr>
         else Inl (ValueError (''Unsupported currency: '' @ currency)))"

text \<open>
  \<^verbatim>\<open>btc_amount * self.btc_usd\<close> raises \<^verbatim>\<open>TypeError\<close> when the amount is \<^verbatim>\<open>None\<close>.
\<close>

definition TransformationFilter_process :: "'n arith \<Rightarrow> 'n FxService \<Rightarrow> 'n filter" where
  "TransformationFilter_process A fxs ctx w =
     (case transaction ctx of
        None \<Rightarrow> Raised (KeyError ''transaction'') ctx w
      | Some tx \<Rightarrow>
          (case btc_amount tx of
             None \<Rightarrow> Raised TypeError ctx w
           | Some btc \<Rightarrow>
               (case btc_to_currency A fxs btc (base_currency tx) of
                  Inl e \<Rightarrow> Raised e ctx w
                | Inr r \<Rightarrow>
                    let (now, w') = utcnow w
                    in Returned
                         (ctx\<lparr>fiat_amount := Some (round2 A (amount r)),
                              fx_used := Some [(''btc_usd'', btc_usd fxs),
                                               (''usd_to_eur'', usd_to_eur fxs),
                                               (''usd_to_gbp'', usd_to_gbp fxs),
                                               (''applied'', fx r)],
                              transformed_at := Some now\<rparr>) w')))"

subsection \<open>Fee\<close>

text \<open>
  The fee is written to the context before the total is computed, so a missing
  \<^verbatim>\<open>fiat_amount\<close> raises \<^verbatim>\<open>KeyError\<close> with the fee already in the context.
\<close>

definition FeeFilter_process :: "'n arith \<Rightarrow> 'n FxService \<Rightarrow> 'n filter" where
  "FeeFilter_process A fxs ctx w =
     (case transaction ctx of
        None \<Rightarrow> Raised (KeyError ''transaction'') ctx w
      | Some tx \<Rightarrow>
          (case (if base_currency tx = ''USD'' then Some (five A)
                 else if base_currency tx = ''EUR'' then Some (mul A (five A) (usd_to_eur fxs))
                 else if base_currency tx = ''GBP'' then Some (mul A (five A) (usd_to_gbp fxs))
                 else None) of
             None \<Rightarrow> Raised (ValueError ''Unsupported currency for fee'') ctx w
           | Some fee0 \<Rightarrow>
               let fee1 = round2 A fee0;
                   ctx' = ctx\<lparr>fee := Some fee1\<rparr>
               in (case fiat_amount ctx' of
                     None \<Rightarrow> Raised (KeyError ''fiat_amount'') ctx' w
                   | Some fiat \<Rightarrow>
                       let (now, w') = utcnow w
                       in Returned
                            (ctx'\<lparr>total := Some (round2 A (add A fiat fee1)),
                                  fee_calculated_at := Some now\<rparr>) w')))"

subsection \<open>Storage\<close>

fun opt_json :: "('a \<Rightarrow> 'n json) \<Rightarrow> 'a option \<Rightarrow> 'n json" where
  "opt_json f None = JNull"
| "opt_json f (Some x) = f x"

text \<open>\<^verbatim>\<open>asdict\<close> of a transaction.\<close>

definition asdict :: "'n Transaction \<Rightarrow> 'n json" where
  "asdict tx =
     JObj [(''user_id'', user_id tx),
           (''btc_amount'', opt_json JNum (btc_amount tx)),
           (''base_currency'', JStr (base_currency tx))]"

definition ledger_record :: "string \<Rightarrow> 'n Transaction \<Rightarrow> 'n Context \<Rightarrow> 'n json" where
  "ledger_record now tx ctx =
     JObj [(''timestamp'', JStr now),
           (''transaction'', asdict tx),
           (''user'', opt_json JObj (user ctx)),
           (''fiat_amount'', opt_json JNum (fiat_amount ctx)),
           (''fee'', opt_json JNum (fee ctx)),
           (''total'', opt_json JNum (total ctx)),
           (''fx_used'', opt_json (\<lambda>d. JObj (map (\<lambda>(k, v). (k, JNum v)) d)) (fx_used ctx))]"

text \<open>
  What the filter takes for the records already stored: none when there is no file or
  when \<^verbatim>\<open>json.load\<close> raises \<^verbatim>\<open>JSONDecodeError\<close>, which is the one exception that
  the filter catches, and the value read otherwise. Any other exception of the read
  leaves the filter. \<^verbatim>\<open>existing.append(record)\<close> needs a list, and a value of any
  other kind has no \<^verbatim>\<open>append\<close>: \<^verbatim>\<open>AttributeError\<close>.
\<close>

fun load_existing :: "'n store \<Rightarrow> error + 'n json list" where
  "load_existing Missing = Inr []"
| "load_existing Malformed = Inr []"
| "load_existing (Unreadable e) = Inl e"
| "load_existing (Stored (JList xs)) = Inr xs"
| "load_existing (Stored v) = Inl AttributeError"

text \<open>
  The record is built first, and the clock is read before the transaction is looked up.
  An exception of the read, and the \<^verbatim>\<open>AttributeError\<close>, come before the file is
  opened for writing, so they leave the file as it was.
\<close>

definition StorageFilter_process :: "string \<Rightarrow> 'n filter" where
  "StorageFilter_process path ctx w =
     (let (now, w1) = utcnow w
      in case transaction ctx of
           None \<Rightarrow> Raised (KeyError ''transaction'') ctx w1
         | Some tx \<Rightarrow>
             let record = ledger_record now tx ctx
             in (case load_existing (files w1 path) of
                   Inl e \<Rightarrow> Raised e ctx w1
                 | Inr existing \<Rightarrow>
                     Returned
                       (ctx\<lparr>persisted := Some True,
                            storage_path := Some (abspath w1 path)\<rparr>)
                       (w1\<lparr>files := (files w1)(path := Stored (JList (existing @ [record])))\<rparr>)))"

section \<open>The pipeline\<close>

text \<open>The loop of \<^verbatim>\<open>Pipeline.run\<close>: an exception leaves it at once.\<close>

fun run_filters :: "'n filter list \<Rightarrow> 'n filter" where
  "run_filters [] ctx w = Returned ctx w"
| "run_filters (f # fs) ctx w =
     (case f ctx w of
        Raised e ctx' w' \<Rightarrow> Raised e ctx' w'
      | Returned ctx' w' \<Rightarrow> run_filters fs ctx' w')"

definition Pipeline_run :: "'n filter list \<Rightarrow> 'n filter" where
  "Pipeline_run filters ctx w =
     (case run_filters filters ctx w of
        Raised e ctx' w' \<Rightarrow> Raised e ctx' w'
      | Returned ctx' w' \<Rightarrow> Returned (ctx'\<lparr>status := Some ''SUCCESS''\<rparr>) w')"

text \<open>The five filters in the order in which the program builds its pipeline.\<close>

definition standard_pipeline ::
  "'n arith \<Rightarrow> 'n users_db \<Rightarrow> 'n FxService \<Rightarrow> string \<Rightarrow> 'n filter list" where
  "standard_pipeline A users_db fxs path =
     [ValidationFilter_process A,
      AuthFilter_process users_db,
      TransformationFilter_process A fxs,
      FeeFilter_process A fxs,
      StorageFilter_process path]"

text \<open>
  Runs one after the other, each in the environment that the run before it left:
  the outcomes, and the environment after the last run.
\<close>

fun run_each :: "'n filter list \<Rightarrow> 'n Context list \<Rightarrow> 'n world \<Rightarrow> 'n outcome list" where
  "run_each filters [] w = []"
| "run_each filters (ctx # ctxs) w =
     (let r = Pipeline_run filters ctx w
      in r # run_each filters ctxs (outcome_world r))"

fun world_after :: "'n filter list \<Rightarrow> 'n Context list \<Rightarrow> 'n world \<Rightarrow> 'n world" where
  "world_after filters [] w = w"
| "world_after filters (ctx # ctxs) w =
     world_after filters ctxs (outcome_world (Pipeline_run filters ctx w))"

subsection \<open>The example run of the program\<close>

definition USERS :: "dbl users_db" where
  "USERS =
     [''u123'' \<mapsto> [(''name'', JStr ''Alice''), (''kyc_level'', JStr ''basic'')],
      ''u456'' \<mapsto> [(''name'', JStr ''Bob''), (''kyc_level'', JStr ''plus'')]]"

definition main_fx :: "dbl FxService" where
  "main_fx = \<lparr>btc_usd = ratio 68000 1, usd_to_eur = ratio 92 100, usd_to_gbp = ratio 78 100\<rparr>"

definition main_pipeline :: "dbl filter list" where
  "main_pipeline = standard_pipeline binary64 USERS main_fx ''transactions.json''"

text \<open>The context \<^verbatim>\<open>{"transaction": tx}\<close> that a run starts from.\<close>

definition new_context :: "'n Transaction \<Rightarrow> 'n Context" where
  "new_context tx =
     \<lparr>transaction = Some tx, validated_at = None, user = None, authenticated_at = None,
      fiat_amount = None, fx_used = None, transformed_at = None, fee = None, total = None,
      fee_calculated_at = None, persisted = None, storage_path = None, status = None\<rparr>"

definition examples :: "dbl Transaction list" where
  "examples =
     [\<lparr>user_id = JStr ''u123'', btc_amount = Some (ratio 1 100), base_currency = ''EUR''\<rparr>,
      \<lparr>user_id = JStr ''u456'', btc_amount = Some (ratio 15 1000), base_currency = ''USD''\<rparr>,
      \<lparr>user_id = JStr ''u123'', btc_amount = Some (ratio 2 100), base_currency = ''GBP''\<rparr>]"

text \<open>
  An environment to run the examples in: no file yet, a clock that counts seconds and a
  working directory \<^verbatim>\<open>/srv\<close>.
\<close>

definition clock_text :: "nat \<Rightarrow> string" where
  "clock_text k = ''2024-01-01T00:00:0'' @ [''0123456789'' ! (k mod 10)]"

definition fresh_world :: "dbl world" where
  "fresh_world =
     \<lparr>files = (\<lambda>p. Missing), ticks = 0, timeline = clock_text,
      abspath = (\<lambda>p. ''/srv/'' @ p)\<rparr>"

section \<open>Notions of the specification\<close>

text \<open>
  \<open>feeds fs (c, w) (c', w')\<close>: every filter of \<open>fs\<close> returns when the filters are run
  in order from context \<open>c\<close> in environment \<open>w\<close>, each on what the one before it
  returned, and the last returns \<open>c'\<close> in \<open>w'\<close>.
\<close>

inductive feeds ::
  "'n filter list \<Rightarrow> 'n Context \<times> 'n world \<Rightarrow> 'n Context \<times> 'n world \<Rightarrow> bool" where
  feeds_Nil: "feeds [] s s"
| feeds_Cons: "f c w = Returned c' w' \<Longrightarrow> feeds fs (c', w') s \<Longrightarrow> feeds (f # fs) (c, w) s"

text \<open>
  The fee as the specification words it: the fixed fee of 5.00 times the rate that the
  conversion of the engine applies for the currency, rounded to two decimals.
\<close>

definition fee_by_applied_rate ::
  "'n arith \<Rightarrow> 'n FxService \<Rightarrow> 'n \<Rightarrow> string \<Rightarrow> error + 'n" where
  "fee_by_applied_rate A fxs btc currency =
     (case btc_to_currency A fxs btc currency of
        Inl e \<Rightarrow> Inl e
      | Inr r \<Rightarrow> Inr (round2 A (mul A (five A) (fx r))))"

text \<open>
  The rate that the specification names for each currency: 1.0 for USD and the cross
  rate for EUR and for GBP.
\<close>

definition applied_rate :: "'n arith \<Rightarrow> 'n FxService \<Rightarrow> string \<Rightarrow> 'n" where
  "applied_rate A fxs currency =
     (if currency = ''USD'' then one A
      else if currency = ''EUR'' then usd_to_eur fxs
      else usd_to_gbp fxs)"

text \<open>
  The ledger record of a run that returned: the snapshot that the storage filter took of
  the context, with the time of the last clock reading of the run.
\<close>

definition run_record :: "'n outcome \<Rightarrow> 'n json" where
  "run_record r =
     (case r of
        Returned c w \<Rightarrow>
          (case transaction c of
             Some tx \<Rightarrow> ledger_record (timeline w (ticks w - 1)) tx c
           | None \<Rightarrow> JNull)
      | Raised e c w \<Rightarrow> JNull)"

subsection \<open>Inputs for the examples\<close>

definition ghost_tx :: "dbl Transaction" where
  "ghost_tx = \<lparr>user_id = JStr ''ghost'', btc_amount = Some (Dbl 1 0), base_currency = ''USD''\<rparr>"

definition unnamed_tx :: "dbl Transaction" where
  "unnamed_tx = \<lparr>user_id = JStr [], btc_amount = Some (Dbl 1 0), base_currency = ''USD''\<rparr>"

definition negative_tx :: "dbl Transaction" where
  "negative_tx =
     \<lparr>user_id = JStr ''u123'', btc_amount = Some (Dbl (- 1) 0), base_currency = ''USD''\<rparr>"

definition yen_tx :: "dbl Transaction" where
  "yen_tx = \<lparr>user_id = JStr ''u123'', btc_amount = Some (Dbl 1 0), base_currency = '' jpy''\<rparr>"

definition lower_eur_tx :: "dbl Transaction" where
  "lower_eur_tx =
     \<lparr>user_id = JStr ''u123'', btc_amount = Some (ratio 1 100), base_currency = ''eur ''\<rparr>"

definition small_eur_tx :: "dbl Transaction" where
  "small_eur_tx =
     \<lparr>user_id = JStr ''u123'', btc_amount = Some (ratio 5 1000), base_currency = ''EUR''\<rparr>"

text \<open>
  An environment in which \<^verbatim>\<open>transactions.json\<close> holds bytes that are not UTF-8, such
  as FF FE 5B 5D.
\<close>

definition undecodable_world :: "dbl world" where
  "undecodable_world =
     fresh_world\<lparr>files := (\<lambda>p. Missing)(''transactions.json'' := Unreadable UnicodeDecodeError)\<rparr>"

definition small_eur_run :: "dbl outcome" where
  "small_eur_run = Pipeline_run main_pipeline (new_context small_eur_tx) fresh_world"

section \<open>Properties\<close>

code_pred feeds .

inductive_cases feeds_NilE: "feeds [] s t"
inductive_cases feeds_ConsE: "feeds (f # fs) s t"

subsection \<open>Auxiliary facts\<close>

lemma binary64_laws: "arith_laws binary64"
  unfolding arith_laws_def
proof
  show "mul binary64 (five binary64) (one binary64) = five binary64"
    by code_simp
  show "\<forall>x. gt_zero binary64 x \<longrightarrow> \<not> le_zero binary64 x"
  proof
    fix x
    show "gt_zero binary64 x \<longrightarrow> \<not> le_zero binary64 x"
      by (cases x) (simp add: binary64_def)
  qed
qed

lemma normalized_supported:
  "py_strip (py_upper ''USD'') = ''USD''"
  "py_strip (py_upper ''EUR'') = ''EUR''"
  "py_strip (py_upper ''GBP'') = ''GBP''"
  by (simp_all add: py_strip_def py_upper_def upper_char_def is_space_def)

lemma upper_char_ascii: "\<not> digit7 (upper_char c) \<Longrightarrow> \<not> digit7 c"
  by (auto simp add: upper_char_def split: option.splits if_splits)

lemma is_space_ascii: "is_space c \<Longrightarrow> \<not> digit7 c"
  by (auto simp add: is_space_def)

lemma dropWhile_keeps: "x \<in> set xs \<Longrightarrow> x \<in> set (dropWhile P xs) \<or> P x"
  by (induction xs) (auto split: if_splits)

lemma py_strip_keeps: "x \<in> set s \<Longrightarrow> x \<in> set (py_strip s) \<or> is_space x"
proof -
  assume "x \<in> set s"
  then have "x \<in> set (dropWhile is_space s) \<or> is_space x"
    by (rule dropWhile_keeps)
  then show ?thesis
  proof
    assume "x \<in> set (dropWhile is_space s)"
    then have "x \<in> set (rev (dropWhile is_space s))" by simp
    then have "x \<in> set (dropWhile is_space (rev (dropWhile is_space s))) \<or> is_space x"
      by (rule dropWhile_keeps)
    then show ?thesis by (auto simp add: py_strip_def)
  next
    assume "is_space x" then show ?thesis ..
  qed
qed

text \<open>
  A code whose normal form is one of USD, EUR and GBP is ASCII text, on which the
  normalization is that of the source: so is every currency code that validation
  accepts.
\<close>

lemma supported_normal_form_ascii:
  assumes "py_strip (py_upper s) \<in> SUPPORTED"
  shows "is_ascii s"
proof -
  have "\<not> digit7 c" if c: "c \<in> set s" for c
  proof -
    from c have "upper_char c \<in> set (py_upper s)" by (simp add: py_upper_def)
    then have "upper_char c \<in> set (py_strip (py_upper s)) \<or> is_space (upper_char c)"
      by (rule py_strip_keeps)
    then have "\<not> digit7 (upper_char c)"
    proof
      assume "upper_char c \<in> set (py_strip (py_upper s))"
      with assms show ?thesis by (auto simp add: SUPPORTED_def)
    next
      assume "is_space (upper_char c)"
      then show ?thesis by (rule is_space_ascii)
    qed
    then show ?thesis by (rule upper_char_ascii)
  qed
  then show ?thesis by (simp add: is_ascii_def list_all_iff)
qed

lemma Validation_accepts_ascii:
  assumes "is_Returned (ValidationFilter_process A ctx w)" and "transaction ctx = Some tx"
  shows "is_ascii (base_currency tx)"
proof -
  from assms have "py_strip (py_upper (base_currency tx)) \<in> SUPPORTED"
    by (auto simp add: ValidationFilter_process_def Let_def split: if_splits)
  then show ?thesis by (rule supported_normal_form_ascii)
qed

lemma Validation_Returned:
  assumes "transaction ctx = Some tx" and "user_id tx = JStr uid" and "uid \<noteq> []"
    and "btc_amount tx = Some btc" and "\<not> le_zero A btc"
    and "py_strip (py_upper (base_currency tx)) \<in> SUPPORTED"
  shows "ValidationFilter_process A ctx w =
           Returned
             (ctx\<lparr>transaction :=
                    Some (tx\<lparr>base_currency := py_strip (py_upper (base_currency tx))\<rparr>),
                  validated_at := Some (timeline w (ticks w))\<rparr>)
             (w\<lparr>ticks := Suc (ticks w)\<rparr>)"
  using assms by (simp add: ValidationFilter_process_def utcnow_def Let_def)

lemma Validation_Raised_or_valid:
  "(\<exists>e c'. ValidationFilter_process A ctx w = Raised e c' w \<and>
       fiat_amount c' = fiat_amount ctx \<and> fee c' = fee ctx \<and> total c' = total ctx) \<or>
   (\<exists>tx uid btc. transaction ctx = Some tx \<and> user_id tx = JStr uid \<and> uid \<noteq> [] \<and>
       btc_amount tx = Some btc \<and> \<not> le_zero A btc \<and>
       py_strip (py_upper (base_currency tx)) \<in> SUPPORTED)"
  by (cases "transaction ctx"; cases "user_id (the (transaction ctx))";
      cases "btc_amount (the (transaction ctx))")
     (auto simp add: ValidationFilter_process_def Let_def)

lemma run_filters_Returned_iff:
  "run_filters fs c w = Returned c' w' \<longleftrightarrow> feeds fs (c, w) (c', w')"
proof (induction fs arbitrary: c w)
  case Nil
  show ?case by (auto intro: feeds.intros elim: feeds_NilE)
next
  case (Cons f fs)
  show ?case
  proof (cases "f c w")
    case (Raised e c1 w1)
    then show ?thesis by (auto elim: feeds_ConsE)
  next
    case (Returned c1 w1)
    then show ?thesis using Cons.IH [of c1 w1]
      by (auto intro: feeds.intros elim: feeds_ConsE)
  qed
qed

lemma run_filters_Raised_iff:
  "run_filters fs c w = Raised e c' w' \<longleftrightarrow>
     (\<exists>pre f post c1 w1.
        fs = pre @ f # post \<and> feeds pre (c, w) (c1, w1) \<and> f c1 w1 = Raised e c' w')"
proof (induction fs arbitrary: c w)
  case Nil
  show ?case by simp
next
  case (Cons g gs)
  show ?case
  proof (cases "g c w")
    case (Raised e0 c0 w0)
    show ?thesis
    proof
      assume "run_filters (g # gs) c w = Raised e c' w'"
      with Raised have "g c w = Raised e c' w'" by simp
      then have "g # gs = [] @ g # gs \<and> feeds [] (c, w) (c, w) \<and> g c w = Raised e c' w'"
        by (simp add: feeds.intros)
      then show "\<exists>pre f post c1 w1.
          g # gs = pre @ f # post \<and> feeds pre (c, w) (c1, w1) \<and> f c1 w1 = Raised e c' w'"
        by blast
    next
      assume "\<exists>pre f post c1 w1.
          g # gs = pre @ f # post \<and> feeds pre (c, w) (c1, w1) \<and> f c1 w1 = Raised e c' w'"
      then obtain pre f post c1 w1 where
        eq: "g # gs = pre @ f # post" and fd: "feeds pre (c, w) (c1, w1)"
        and r: "f c1 w1 = Raised e c' w'" by blast
      show "run_filters (g # gs) c w = Raised e c' w'"
      proof (cases pre)
        case Nil
        with eq fd r show ?thesis by (auto elim: feeds_NilE)
      next
        case (Cons p ps)
        with eq fd Raised show ?thesis by (auto elim: feeds_ConsE)
      qed
    qed
  next
    case (Returned c0 w0)
    show ?thesis
    proof
      assume "run_filters (g # gs) c w = Raised e c' w'"
      with Returned have "run_filters gs c0 w0 = Raised e c' w'" by simp
      with Cons.IH [of c0 w0] obtain pre f post c1 w1 where
        "gs = pre @ f # post" "feeds pre (c0, w0) (c1, w1)" "f c1 w1 = Raised e c' w'"
        by blast
      with Returned have
        "g # gs = (g # pre) @ f # post \<and> feeds (g # pre) (c, w) (c1, w1) \<and>
         f c1 w1 = Raised e c' w'"
        by (simp add: feeds.intros)
      then show "\<exists>pre f post c1 w1.
          g # gs = pre @ f # post \<and> feeds pre (c, w) (c1, w1) \<and> f c1 w1 = Raised e c' w'"
        by blast
    next
      assume "\<exists>pre f post c1 w1.
          g # gs = pre @ f # post \<and> feeds pre (c, w) (c1, w1) \<and> f c1 w1 = Raised e c' w'"
      then obtain pre f post c1 w1 where
        eq: "g # gs = pre @ f # post" and fd: "feeds pre (c, w) (c1, w1)"
        and r: "f c1 w1 = Raised e c' w'" by blast
      show "run_filters (g # gs) c w = Raised e c' w'"
      proof (cases pre)
        case Nil
        with eq fd r Returned show ?thesis by (auto elim: feeds_NilE)
      next
        case (Cons p ps)
        with eq have g: "p = g" and gs: "gs = ps @ f # post" by simp_all
        from fd Cons g Returned have "feeds ps (c0, w0) (c1, w1)"
          by (auto elim: feeds_ConsE)
        with gs r have "run_filters gs c0 w0 = Raised e c' w'"
          using Cons.IH [of c0 w0] by blast
        with Returned show ?thesis by simp
      qed
    qed
  qed
qed

lemma Validation_ReturnedD:
  assumes "ValidationFilter_process A c w = Returned c' w'"
  shows "w' = w\<lparr>ticks := Suc (ticks w)\<rparr>"
  using assms
  by (auto simp add: ValidationFilter_process_def utcnow_def Let_def
      split: option.splits if_splits)

lemma Auth_ReturnedD:
  assumes "AuthFilter_process users_db c w = Returned c' w'"
  shows "w' = w\<lparr>ticks := Suc (ticks w)\<rparr>"
  using assms
  by (auto simp add: AuthFilter_process_def utcnow_def Let_def
      split: option.splits if_splits json.splits)

lemma Transformation_ReturnedD:
  assumes "TransformationFilter_process A fxs c w = Returned c' w'"
  shows "w' = w\<lparr>ticks := Suc (ticks w)\<rparr>"
  using assms
  by (auto simp add: TransformationFilter_process_def utcnow_def Let_def
      split: option.splits sum.splits)

lemma Fee_ReturnedD:
  assumes "FeeFilter_process A fxs c w = Returned c' w'"
  shows "w' = w\<lparr>ticks := Suc (ticks w)\<rparr>"
  using assms
  by (auto simp add: FeeFilter_process_def utcnow_def Let_def
      split: option.splits if_splits)

lemma Storage_ReturnedD:
  assumes "StorageFilter_process path c w = Returned c' w'"
  shows "\<exists>tx xs. transaction c = Some tx \<and> load_existing (files w path) = Inr xs \<and>
           c' = c\<lparr>persisted := Some True, storage_path := Some (abspath w path)\<rparr> \<and>
           w' = w\<lparr>ticks := Suc (ticks w),
                  files := (files w)(path :=
                    Stored (JList (xs @ [ledger_record (timeline w (ticks w)) tx c])))\<rparr>"
  using assms
  by (auto simp add: StorageFilter_process_def utcnow_def Let_def
      split: option.splits sum.splits)

lemma standard_run_appends:
  assumes "Pipeline_run (standard_pipeline A users_db fxs path) c w = Returned c' w'"
    and "load_existing (files w path) = Inr xs"
  shows "load_existing (files w' path) = Inr (xs @ [run_record (Returned c' w')])"
proof -
  from assms(1) obtain c1 w1 c2 w2 c3 w3 c4 w4 c5 w5 where
    s1: "ValidationFilter_process A c w = Returned c1 w1" and
    s2: "AuthFilter_process users_db c1 w1 = Returned c2 w2" and
    s3: "TransformationFilter_process A fxs c2 w2 = Returned c3 w3" and
    s4: "FeeFilter_process A fxs c3 w3 = Returned c4 w4" and
    s5: "StorageFilter_process path c4 w4 = Returned c5 w5" and
    fin: "c' = c5\<lparr>status := Some ''SUCCESS''\<rparr>" "w' = w5"
    by (auto simp add: standard_pipeline_def Pipeline_run_def split: outcome.splits)
  have f4: "files w4 = files w"
    using Validation_ReturnedD [OF s1] Auth_ReturnedD [OF s2]
      Transformation_ReturnedD [OF s3] Fee_ReturnedD [OF s4] by simp
  from Storage_ReturnedD [OF s5] obtain tx ys where
    st: "transaction c4 = Some tx" "load_existing (files w4 path) = Inr ys"
      "c5 = c4\<lparr>persisted := Some True, storage_path := Some (abspath w4 path)\<rparr>"
      "w5 = w4\<lparr>ticks := Suc (ticks w4),
               files := (files w4)(path :=
                 Stored (JList (ys @ [ledger_record (timeline w4 (ticks w4)) tx c4])))\<rparr>"
    by blast
  from st(2) f4 assms(2) have "ys = xs" by simp
  with st fin show ?thesis
    by (simp add: run_record_def ledger_record_def)
qed

lemma standard_runs_append:
  assumes "list_all is_Returned (run_each (standard_pipeline A users_db fxs path) cs w)"
    and "load_existing (files w path) = Inr xs"
  shows "load_existing (files (world_after (standard_pipeline A users_db fxs path) cs w) path) =
           Inr (xs @ map run_record (run_each (standard_pipeline A users_db fxs path) cs w))"
  using assms
proof (induction cs arbitrary: w xs)
  case Nil
  then show ?case by simp
next
  case (Cons c cs)
  let ?P = "standard_pipeline A users_db fxs path"
  from Cons.prems(1) obtain c' w' where r: "Pipeline_run ?P c w = Returned c' w'"
    by (cases "Pipeline_run ?P c w") (simp_all add: Let_def)
  from standard_run_appends [OF r Cons.prems(2)]
  have ld: "load_existing (files w' path) = Inr (xs @ [run_record (Returned c' w')])" .
  from Cons.prems(1) r have "list_all is_Returned (run_each ?P cs w')"
    by (simp add: Let_def)
  from Cons.IH [OF this ld] r show ?case by (simp add: Let_def)
qed

lemma run_each_take:
  "run_each fs (take k cs) w = take k (run_each fs cs w)"
  by (induction cs arbitrary: k w) (auto simp add: Let_def take_Cons')

lemma list_all_take: "list_all P xs \<Longrightarrow> list_all P (take k xs)"
  by (induction xs arbitrary: k) (auto simp add: take_Cons')

lemma length_run_each: "length (run_each fs cs w) = length cs"
  by (induction cs arbitrary: w) (simp_all add: Let_def)

subsection \<open>The conversion of the engine\<close>

text \<open>
  Claim C2. For every amount and every currency code, \<^verbatim>\<open>btc_to_currency\<close> returns the
  amount \<open>btc * btc_usd\<close> and the rate 1.0 for USD, the amount
  \<open>(btc * btc_usd) * usd_to_eur\<close> and the rate \<open>usd_to_eur\<close> for EUR, the amount
  \<open>(btc * btc_usd) * usd_to_gbp\<close> and the rate \<open>usd_to_gbp\<close> for GBP, and raises for
  every other code: the \<^verbatim>\<open>ValueError\<close> "Unsupported currency", which is the
  UnsupportedCurrency of the specification.
\<close>

theorem btc_to_currency_by_code:
  "btc_to_currency A self btc ''USD'' =
     Inr \<lparr>amount = mul A btc (btc_usd self), fx = one A\<rparr> \<and>
   btc_to_currency A self btc ''EUR'' =
     Inr \<lparr>amount = mul A (mul A btc (btc_usd self)) (usd_to_eur self),
          fx = usd_to_eur self\<rparr> \<and>
   btc_to_currency A self btc ''GBP'' =
     Inr \<lparr>amount = mul A (mul A btc (btc_usd self)) (usd_to_gbp self),
          fx = usd_to_gbp self\<rparr> \<and>
   (code \<notin> {''USD'', ''EUR'', ''GBP''} \<longrightarrow>
      btc_to_currency A self btc code = Inl (ValueError (''Unsupported currency: '' @ code)))"
  by (simp add: btc_to_currency_def)

theorem btc_to_currency_by_code_witness:
  "''JPY'' \<notin> {''USD'', ''EUR'', ''GBP''} \<and>
   btc_to_currency binary64 main_fx (Dbl 1 0) ''JPY'' =
     Inl (ValueError ''Unsupported currency: JPY'')"
  using btc_to_currency_by_code [of binary64 main_fx "Dbl 1 0" "''JPY''"] by simp

subsection \<open>The orchestrator\<close>

text \<open>
  Claim C3. \<^verbatim>\<open>Pipeline.run\<close> feeds the context through the filters in order, each on
  what the filter before it returned. The run returns exactly when every filter returns,
  and what it returns is the last context with \<^verbatim>\<open>status\<close> set to \<^verbatim>\<open>SUCCESS\<close>. The
  run raises exactly when some filter raises after all filters before it returned, and
  then the outcome of the run is the outcome of that filter: the same error, and the
  context as that filter left it, with no status written by the run. The filters after
  it play no part.
\<close>

theorem Pipeline_run_in_order:
  "(Pipeline_run fs c w = Returned c' w' \<longleftrightarrow>
      (\<exists>c''. feeds fs (c, w) (c'', w') \<and> c' = c''\<lparr>status := Some ''SUCCESS''\<rparr>)) \<and>
   (Pipeline_run fs c w = Raised e c' w' \<longleftrightarrow>
      (\<exists>pre f post c1 w1.
         fs = pre @ f # post \<and> feeds pre (c, w) (c1, w1) \<and> f c1 w1 = Raised e c' w'))"
proof -
  have "Pipeline_run fs c w = Returned c' w' \<longleftrightarrow>
      (\<exists>c''. run_filters fs c w = Returned c'' w' \<and> c' = c''\<lparr>status := Some ''SUCCESS''\<rparr>)"
    by (cases "run_filters fs c w") (auto simp add: Pipeline_run_def)
  moreover have
    "Pipeline_run fs c w = Raised e c' w' \<longleftrightarrow> run_filters fs c w = Raised e c' w'"
    by (cases "run_filters fs c w") (auto simp add: Pipeline_run_def)
  ultimately show ?thesis
    by (simp only: run_filters_Returned_iff run_filters_Raised_iff)
qed

theorem Pipeline_run_in_order_witness:
  "(\<exists>c' w' c''.
      Pipeline_run main_pipeline (new_context lower_eur_tx) fresh_world = Returned c' w' \<and>
      feeds main_pipeline (new_context lower_eur_tx, fresh_world) (c'', w') \<and>
      c' = c''\<lparr>status := Some ''SUCCESS''\<rparr>) \<and>
   (\<exists>e c' w' pre f post c1 w1.
      Pipeline_run main_pipeline (new_context ghost_tx) fresh_world = Raised e c' w' \<and>
      main_pipeline = pre @ f # post \<and>
      feeds pre (new_context ghost_tx, fresh_world) (c1, w1) \<and>
      f c1 w1 = Raised e c' w')"
proof (rule conjI)
  have "is_Returned (Pipeline_run main_pipeline (new_context lower_eur_tx) fresh_world)"
    by code_simp
  then obtain c' w' where
    r: "Pipeline_run main_pipeline (new_context lower_eur_tx) fresh_world = Returned c' w'"
    by (cases "Pipeline_run main_pipeline (new_context lower_eur_tx) fresh_world") simp_all
  note Pipeline_run_in_order
         [of main_pipeline "new_context lower_eur_tx" fresh_world c' w',
          THEN conjunct1, THEN iffD1, OF r]
  then obtain c'' where
    "feeds main_pipeline (new_context lower_eur_tx, fresh_world) (c'', w') \<and>
     c' = c''\<lparr>status := Some ''SUCCESS''\<rparr>" ..
  with r have
    "Pipeline_run main_pipeline (new_context lower_eur_tx) fresh_world = Returned c' w' \<and>
     feeds main_pipeline (new_context lower_eur_tx, fresh_world) (c'', w') \<and>
     c' = c''\<lparr>status := Some ''SUCCESS''\<rparr>"
    by (rule conjI)
  then show "\<exists>c' w' c''.
      Pipeline_run main_pipeline (new_context lower_eur_tx) fresh_world = Returned c' w' \<and>
      feeds main_pipeline (new_context lower_eur_tx, fresh_world) (c'', w') \<and>
      c' = c''\<lparr>status := Some ''SUCCESS''\<rparr>"
    by (intro exI)
next
  have "\<not> is_Returned (Pipeline_run main_pipeline (new_context ghost_tx) fresh_world)"
    by code_simp
  then obtain e c' w' where
    r: "Pipeline_run main_pipeline (new_context ghost_tx) fresh_world = Raised e c' w'"
    by (cases "Pipeline_run main_pipeline (new_context ghost_tx) fresh_world") simp_all
  note Pipeline_run_in_order
         [of main_pipeline "new_context ghost_tx" fresh_world c' w' e,
          THEN conjunct2, THEN iffD1, OF r]
  then obtain pre where "\<exists>f post c1 w1.
      main_pipeline = pre @ f # post \<and>
      feeds pre (new_context ghost_tx, fresh_world) (c1, w1) \<and> f c1 w1 = Raised e c' w'" ..
  then obtain f where "\<exists>post c1 w1.
      main_pipeline = pre @ f # post \<and>
      feeds pre (new_context ghost_tx, fresh_world) (c1, w1) \<and> f c1 w1 = Raised e c' w'" ..
  then obtain post where "\<exists>c1 w1.
      main_pipeline = pre @ f # post \<and>
      feeds pre (new_context ghost_tx, fresh_world) (c1, w1) \<and> f c1 w1 = Raised e c' w'" ..
  then obtain c1 where "\<exists>w1.
      main_pipeline = pre @ f # post \<and>
      feeds pre (new_context ghost_tx, fresh_world) (c1, w1) \<and> f c1 w1 = Raised e c' w'" ..
  then obtain w1 where
     "main_pipeline = pre @ f # post \<and>
      feeds pre (new_context ghost_tx, fresh_world) (c1, w1) \<and> f c1 w1 = Raised e c' w'" ..
  with r have
    "Pipeline_run main_pipeline (new_context ghost_tx) fresh_world = Raised e c' w' \<and>
      main_pipeline = pre @ f # post \<and>
      feeds pre (new_context ghost_tx, fresh_world) (c1, w1) \<and>
      f c1 w1 = Raised e c' w'"
    by (rule conjI)
  then show "\<exists>e c' w' pre f post c1 w1.
      Pipeline_run main_pipeline (new_context ghost_tx) fresh_world = Raised e c' w' \<and>
      main_pipeline = pre @ f # post \<and>
      feeds pre (new_context ghost_tx, fresh_world) (c1, w1) \<and>
      f c1 w1 = Raised e c' w'"
    by (intro exI)
qed

subsection \<open>Validation\<close>

text \<open>
  Claim C4. The validation filter applies its rules in order. Without a transaction it
  raises "Missing transaction in context" (MissingTransaction). With a \<^verbatim>\<open>user_id\<close>
  that is empty or not a string it raises "Invalid user_id" (InvalidUser). Otherwise,
  with a \<^verbatim>\<open>btc_amount\<close> that is \<^verbatim>\<open>None\<close> or \<^verbatim>\<open><= 0\<close> it raises "btc_amount must
  be > 0" (InvalidAmount). Otherwise it replaces \<^verbatim>\<open>base_currency\<close>, taken to be
  ASCII text, in place by its uppercased and stripped form and, when that is none of
  USD, EUR and GBP, raises
  "Unsupported base currency" (UnsupportedCurrency), the transaction already holding the
  normalized code. Otherwise it returns the context with the normalized transaction and
  the time of validation. All five errors are \<^verbatim>\<open>ValueError\<close>s in the source.
\<close>

theorem validation_rules_in_order:
  "(transaction ctx = None \<longrightarrow>
      ValidationFilter_process A ctx w =
        Raised (ValueError ''Missing transaction in context'') ctx w) \<and>
   (transaction ctx = Some tx \<longrightarrow>
      ((\<forall>s. user_id tx \<noteq> JStr s) \<or> user_id tx = JStr [] \<longrightarrow>
         ValidationFilter_process A ctx w = Raised (ValueError ''Invalid user_id'') ctx w) \<and>
      ((\<exists>s. user_id tx = JStr s \<and> s \<noteq> []) \<longrightarrow>
         (btc_amount tx = None \<or> (\<exists>x. btc_amount tx = Some x \<and> le_zero A x) \<longrightarrow>
            ValidationFilter_process A ctx w =
              Raised (ValueError ''btc_amount must be > 0'') ctx w) \<and>
         ((\<exists>x. btc_amount tx = Some x \<and> \<not> le_zero A x) \<and> is_ascii (base_currency tx) \<longrightarrow>
            (py_strip (py_upper (base_currency tx)) \<notin> {''USD'', ''EUR'', ''GBP''} \<longrightarrow>
               ValidationFilter_process A ctx w =
                 Raised
                   (ValueError
                      (''Unsupported base currency: '' @ py_strip (py_upper (base_currency tx))))
                   (ctx\<lparr>transaction :=
                          Some (tx\<lparr>base_currency := py_strip (py_upper (base_currency tx))\<rparr>)\<rparr>)
                   w) \<and>
            (py_strip (py_upper (base_currency tx)) \<in> {''USD'', ''EUR'', ''GBP''} \<longrightarrow>
               ValidationFilter_process A ctx w =
                 Returned
                   (ctx\<lparr>transaction :=
                          Some (tx\<lparr>base_currency := py_strip (py_upper (base_currency tx))\<rparr>),
                        validated_at := Some (timeline w (ticks w))\<rparr>)
                   (w\<lparr>ticks := Suc (ticks w)\<rparr>)))))"
  by (cases "user_id tx")
     (auto simp add: ValidationFilter_process_def utcnow_def SUPPORTED_def Let_def)

theorem validation_rules_in_order_witness:
  "ValidationFilter_process binary64 ((new_context ghost_tx)\<lparr>transaction := None\<rparr>) fresh_world =
     Raised (ValueError ''Missing transaction in context'')
       ((new_context ghost_tx)\<lparr>transaction := None\<rparr>) fresh_world \<and>
   ValidationFilter_process binary64 (new_context unnamed_tx) fresh_world =
     Raised (ValueError ''Invalid user_id'') (new_context unnamed_tx) fresh_world \<and>
   ValidationFilter_process binary64 (new_context negative_tx) fresh_world =
     Raised (ValueError ''btc_amount must be > 0'') (new_context negative_tx) fresh_world \<and>
   ValidationFilter_process binary64 (new_context yen_tx) fresh_world =
     Raised (ValueError ''Unsupported base currency: JPY'')
       ((new_context yen_tx)\<lparr>transaction := Some (yen_tx\<lparr>base_currency := ''JPY''\<rparr>)\<rparr>)
       fresh_world \<and>
   ValidationFilter_process binary64 (new_context lower_eur_tx) fresh_world =
     Returned
       ((new_context lower_eur_tx)
          \<lparr>transaction := Some (lower_eur_tx\<lparr>base_currency := ''EUR''\<rparr>),
           validated_at := Some ''2024-01-01T00:00:00''\<rparr>)
       (fresh_world\<lparr>ticks := 1\<rparr>)"
proof -
  have jpy: "py_strip (py_upper '' jpy'') = ''JPY''"
    and eur: "py_strip (py_upper ''eur '') = ''EUR''"
    by (simp_all add: py_strip_def py_upper_def upper_char_def is_space_def)
  have pos: "\<not> le_zero binary64 (ratio 1 100)"
    by code_simp
  have asc: "is_ascii '' jpy''" "is_ascii ''eur ''"
    by (simp_all add: is_ascii_def)
  have now: "timeline fresh_world (ticks fresh_world) = ''2024-01-01T00:00:00''"
    by (simp add: fresh_world_def clock_text_def)
  show ?thesis
    using
      validation_rules_in_order
        [of "(new_context ghost_tx)\<lparr>transaction := None\<rparr>" binary64 fresh_world ghost_tx]
      validation_rules_in_order [of "new_context unnamed_tx" binary64 fresh_world unnamed_tx]
      validation_rules_in_order [of "new_context negative_tx" binary64 fresh_world negative_tx]
      validation_rules_in_order [of "new_context yen_tx" binary64 fresh_world yen_tx]
      validation_rules_in_order
        [of "new_context lower_eur_tx" binary64 fresh_world lower_eur_tx]
      jpy eur pos asc now
    by (simp add: new_context_def unnamed_tx_def negative_tx_def yen_tx_def lower_eur_tx_def
          binary64_def fresh_world_def)
qed

subsection \<open>Authentication\<close>

text \<open>
  What a run does with a transaction whose \<^verbatim>\<open>user_id\<close> the directory does not list:
  it raises, the context keeps the \<^verbatim>\<open>fiat_amount\<close>, \<^verbatim>\<open>fee\<close> and \<^verbatim>\<open>total\<close> it
  had, and no file is written. The error is that of validation when validation raises,
  and "User not authenticated" otherwise.
\<close>

lemma absent_user_run:
  assumes "transaction ctx = Some tx"
    and "\<forall>uid. user_id tx = JStr uid \<longrightarrow> users_db uid = None"
  shows "\<exists>e c' w'.
           Pipeline_run (standard_pipeline A users_db fxs path) ctx w = Raised e c' w' \<and>
           fiat_amount c' = fiat_amount ctx \<and> fee c' = fee ctx \<and> total c' = total ctx \<and>
           files w' = files w \<and>
           (if is_Returned (ValidationFilter_process A ctx w)
            then e = PermissionError ''User not authenticated''
            else ValidationFilter_process A ctx w = Raised e c' w')"
proof -
  consider
    (raised) e c' where "ValidationFilter_process A ctx w = Raised e c' w"
      "fiat_amount c' = fiat_amount ctx" "fee c' = fee ctx" "total c' = total ctx"
  | (valid) tx0 uid btc where "transaction ctx = Some tx0" "user_id tx0 = JStr uid" "uid \<noteq> []"
      "btc_amount tx0 = Some btc" "\<not> le_zero A btc"
      "py_strip (py_upper (base_currency tx0)) \<in> SUPPORTED"
    using Validation_Raised_or_valid [of A ctx w] by blast
  then show ?thesis
  proof cases
    case raised
    then show ?thesis
      by (simp add: Pipeline_run_def standard_pipeline_def)
  next
    case valid
    with assms have "users_db uid = None" by simp
    with valid Validation_Returned [OF valid] show ?thesis
      by (simp add: Pipeline_run_def standard_pipeline_def AuthFilter_process_def)
  qed
qed

text \<open>
  Claim C5. The authentication stage works on a validated transaction. For every
  transaction that validation accepts and whose \<^verbatim>\<open>user_id\<close> is absent from the
  directory, the run of the five filters fails with "User not authenticated"
  (NotAuthenticated), the context has the \<^verbatim>\<open>fiat_amount\<close>, \<^verbatim>\<open>fee\<close> and \<^verbatim>\<open>total\<close>
  that it had before the run, so it never gains them, and no file is written: the
  conversion and fee filters do not run. A currency code that validation accepts is
  ASCII text, by \<open>Validation_accepts_ascii\<close>.
\<close>

theorem absent_user_not_authenticated:
  assumes "transaction ctx = Some tx"
    and "is_Returned (ValidationFilter_process A ctx w)"
    and "\<forall>uid. user_id tx = JStr uid \<longrightarrow> users_db uid = None"
  shows "\<exists>c' w'.
           Pipeline_run (standard_pipeline A users_db fxs path) ctx w =
             Raised (PermissionError ''User not authenticated'') c' w' \<and>
           fiat_amount c' = fiat_amount ctx \<and> fee c' = fee ctx \<and> total c' = total ctx \<and>
           files w' = files w"
proof -
  from absent_user_run [OF assms(1) assms(3), of A fxs path w] obtain e c' w' where
    r: "Pipeline_run (standard_pipeline A users_db fxs path) ctx w = Raised e c' w'"
    and k: "fiat_amount c' = fiat_amount ctx" "fee c' = fee ctx" "total c' = total ctx"
      "files w' = files w"
    and e: "if is_Returned (ValidationFilter_process A ctx w)
            then e = PermissionError ''User not authenticated''
            else ValidationFilter_process A ctx w = Raised e c' w'"
    by (elim exE conjE)
  from e assms(2) have "e = PermissionError ''User not authenticated''"
    by simp
  with r k show ?thesis by simp
qed

theorem absent_user_not_authenticated_witness:
  "transaction (new_context ghost_tx) = Some ghost_tx \<and>
   is_Returned (ValidationFilter_process binary64 (new_context ghost_tx) fresh_world) \<and>
   user_id ghost_tx = JStr ''ghost'' \<and>
   USERS ''ghost'' = None \<and>
   (\<exists>c' w'.
      Pipeline_run main_pipeline (new_context ghost_tx) fresh_world =
        Raised (PermissionError ''User not authenticated'') c' w' \<and>
      fiat_amount c' = fiat_amount (new_context ghost_tx) \<and>
      fee c' = fee (new_context ghost_tx) \<and>
      total c' = total (new_context ghost_tx) \<and>
      files w' = files fresh_world)"
proof -
  have h1: "transaction (new_context ghost_tx) = Some ghost_tx"
    by (simp add: new_context_def)
  have h2: "is_Returned (ValidationFilter_process binary64 (new_context ghost_tx) fresh_world)"
    by code_simp
  have u: "user_id ghost_tx = JStr ''ghost''"
    by (simp add: ghost_tx_def)
  have n: "USERS ''ghost'' = None"
    by (simp add: USERS_def)
  from u n have h3: "\<forall>uid. user_id ghost_tx = JStr uid \<longrightarrow> USERS uid = None"
    by simp
  from absent_user_not_authenticated
         [OF h1 h2 h3, of main_fx "''transactions.json''"]
  have "\<exists>c' w'.
      Pipeline_run main_pipeline (new_context ghost_tx) fresh_world =
        Raised (PermissionError ''User not authenticated'') c' w' \<and>
      fiat_amount c' = fiat_amount (new_context ghost_tx) \<and>
      fee c' = fee (new_context ghost_tx) \<and>
      total c' = total (new_context ghost_tx) \<and>
      files w' = files fresh_world"
    by (simp only: main_pipeline_def)
  with h1 h2 u n show ?thesis by (intro conjI)
qed

text \<open>
  Claim C10. When the directory has an entry for the \<^verbatim>\<open>user_id\<close> and the entry is the
  empty dict, the authentication filter raises "User not authenticated"
  (NotAuthenticated) and leaves the context as it was: to be authenticated takes a
  profile that is not empty.
\<close>

theorem empty_profile_not_authenticated:
  assumes "transaction ctx = Some tx"
    and "user_id tx = JStr uid"
    and "users_db uid = Some []"
  shows "AuthFilter_process users_db ctx w =
           Raised (PermissionError ''User not authenticated'') ctx w"
  using assms by (simp add: AuthFilter_process_def)

theorem empty_profile_not_authenticated_witness:
  "transaction (new_context ghost_tx) = Some ghost_tx \<and>
   user_id ghost_tx = JStr ''ghost'' \<and>
   (USERS(''ghost'' \<mapsto> [])) ''ghost'' = Some [] \<and>
   AuthFilter_process (USERS(''ghost'' \<mapsto> [])) (new_context ghost_tx) fresh_world =
     Raised (PermissionError ''User not authenticated'') (new_context ghost_tx) fresh_world"
proof -
  have h1: "transaction (new_context ghost_tx) = Some ghost_tx"
    by (simp add: new_context_def)
  have h2: "user_id ghost_tx = JStr ''ghost''"
    by (simp add: ghost_tx_def)
  have h3: "(USERS(''ghost'' \<mapsto> [])) ''ghost'' = Some []"
    by simp
  from empty_profile_not_authenticated
         [where users_db = "USERS(''ghost'' \<mapsto> [])" and w = fresh_world, OF h1 h2 h3]
       h1 h2 h3
  show ?thesis by (intro conjI)
qed

subsection \<open>Fee\<close>

text \<open>
  Claim C6. For each of USD, EUR and GBP, the fee that the fee filter writes to the
  context is \<^verbatim>\<open>round(5.00 * r, 2)\<close> where \<open>r\<close> is the rate (the \<^verbatim>\<open>fx\<close> entry) that
  \<^verbatim>\<open>btc_to_currency\<close> of the same engine returns for that currency, whatever the
  amount converted. The filter has its own chain of cases, whose values are those of the
  engine; for USD it rounds \<^verbatim>\<open>5.00\<close> itself, which is \<^verbatim>\<open>5.00 * 1.0\<close>.
\<close>

theorem fee_applies_conversion_rate:
  assumes "mul A (five A) (one A) = five A"
    and "transaction ctx = Some tx"
    and "base_currency tx \<in> {''USD'', ''EUR'', ''GBP''}"
  shows "\<exists>r. btc_to_currency A fxs btc (base_currency tx) = Inr r \<and>
             fee_by_applied_rate A fxs btc (base_currency tx) =
               Inr (round2 A (mul A (five A) (fx r))) \<and>
             fee (outcome_context (FeeFilter_process A fxs ctx w)) =
               Some (round2 A (mul A (five A) (fx r)))"
  using assms
  by (cases "fiat_amount ctx")
     (auto simp add: btc_to_currency_def fee_by_applied_rate_def FeeFilter_process_def
        utcnow_def Let_def)

theorem fee_applies_conversion_rate_witness:
  "mul binary64 (five binary64) (one binary64) = five binary64 \<and>
   transaction (new_context small_eur_tx) = Some small_eur_tx \<and>
   base_currency small_eur_tx \<in> {''USD'', ''EUR'', ''GBP''} \<and>
   (\<exists>r. btc_to_currency binary64 main_fx (Dbl 1 0) (base_currency small_eur_tx) = Inr r \<and>
        fee_by_applied_rate binary64 main_fx (Dbl 1 0) (base_currency small_eur_tx) =
          Inr (round2 binary64 (mul binary64 (five binary64) (fx r))) \<and>
        fee (outcome_context
               (FeeFilter_process binary64 main_fx (new_context small_eur_tx) fresh_world)) =
          Some (round2 binary64 (mul binary64 (five binary64) (fx r))))"
proof -
  have h1: "mul binary64 (five binary64) (one binary64) = five binary64"
    by code_simp
  have h2: "transaction (new_context small_eur_tx) = Some small_eur_tx"
    by (simp add: new_context_def)
  have h3: "base_currency small_eur_tx \<in> {''USD'', ''EUR'', ''GBP''}"
    by (simp add: small_eur_tx_def)
  from fee_applies_conversion_rate [OF h1 h2 h3, of main_fx "Dbl 1 0" fresh_world] h1 h2 h3
  show ?thesis by (intro conjI)
qed

subsection \<open>Order of validation and authentication\<close>

text \<open>
  Claim C7. For every transaction whose \<^verbatim>\<open>btc_amount\<close> is \<^verbatim>\<open><= 0\<close> or whose
  currency, ASCII text, is in normal form none of USD, EUR and GBP, the validation filter
  raises, in the environment it was given, and the run raises just that, whatever filters
  come after validation: in a pipeline that starts with validation, and so in the
  pipeline of the five filters, the authentication filter is not reached by a transaction
  that validation did not accept.
\<close>

theorem validation_before_authentication:
  assumes "transaction ctx = Some tx"
    and "(\<exists>x. btc_amount tx = Some x \<and> le_zero A x) \<or>
         (is_ascii (base_currency tx) \<and>
          py_strip (py_upper (base_currency tx)) \<notin> {''USD'', ''EUR'', ''GBP''})"
  shows "\<exists>e c'.
           ValidationFilter_process A ctx w = Raised e c' w \<and>
           (\<forall>later. Pipeline_run (ValidationFilter_process A # later) ctx w = Raised e c' w) \<and>
           Pipeline_run (standard_pipeline A users_db fxs path) ctx w = Raised e c' w"
proof -
  from assms have "\<exists>e c'. ValidationFilter_process A ctx w = Raised e c' w"
    by (auto simp add: ValidationFilter_process_def SUPPORTED_def Let_def)
  then show ?thesis
    by (auto simp add: Pipeline_run_def standard_pipeline_def)
qed

theorem validation_before_authentication_witness:
  "transaction (new_context negative_tx) = Some negative_tx \<and>
   ((\<exists>x. btc_amount negative_tx = Some x \<and> le_zero binary64 x) \<or>
    (is_ascii (base_currency negative_tx) \<and>
     py_strip (py_upper (base_currency negative_tx)) \<notin> {''USD'', ''EUR'', ''GBP''})) \<and>
   (\<exists>e c'.
      ValidationFilter_process binary64 (new_context negative_tx) fresh_world =
        Raised e c' fresh_world \<and>
      (\<forall>later.
         Pipeline_run (ValidationFilter_process binary64 # later) (new_context negative_tx)
           fresh_world = Raised e c' fresh_world) \<and>
      Pipeline_run main_pipeline (new_context negative_tx) fresh_world =
        Raised e c' fresh_world)"
proof -
  have h1: "transaction (new_context negative_tx) = Some negative_tx"
    by (simp add: new_context_def)
  have h2: "(\<exists>x. btc_amount negative_tx = Some x \<and> le_zero binary64 x) \<or>
    (is_ascii (base_currency negative_tx) \<and>
     py_strip (py_upper (base_currency negative_tx)) \<notin> {''USD'', ''EUR'', ''GBP''})"
    by (simp add: negative_tx_def binary64_def)
  from validation_before_authentication
         [OF h1 h2, of fresh_world USERS main_fx "''transactions.json''"]
  have "\<exists>e c'.
      ValidationFilter_process binary64 (new_context negative_tx) fresh_world =
        Raised e c' fresh_world \<and>
      (\<forall>later.
         Pipeline_run (ValidationFilter_process binary64 # later) (new_context negative_tx)
           fresh_world = Raised e c' fresh_world) \<and>
      Pipeline_run main_pipeline (new_context negative_tx) fresh_world =
        Raised e c' fresh_world"
    by (simp only: main_pipeline_def)
  with h1 h2 show ?thesis by (intro conjI)
qed

subsection \<open>Storage\<close>

text \<open>
  When the file is missing, or holds text that \<^verbatim>\<open>json.load\<close> rejects with
  \<^verbatim>\<open>JSONDecodeError\<close>, the storage filter takes the stored records to be none: it
  returns, and the file then holds the list of exactly the one new record.
\<close>

lemma Storage_tolerates_missing_or_malformed:
  assumes "transaction ctx = Some tx"
    and "files w path = Missing \<or> files w path = Malformed"
  shows "StorageFilter_process path ctx w =
           Returned
             (ctx\<lparr>persisted := Some True, storage_path := Some (abspath w path)\<rparr>)
             (w\<lparr>ticks := Suc (ticks w),
                files := (files w)(path :=
                  Stored (JList [ledger_record (timeline w (ticks w)) tx ctx]))\<rparr>)"
  using assms by (auto simp add: StorageFilter_process_def utcnow_def)

text \<open>
  Claim C9 says that for every prior content of the store the storage filter takes a
  missing or unparsable store for the empty sequence instead of failing. The handler of
  the source catches \<^verbatim>\<open>JSONDecodeError\<close> alone. When reading the store raises another
  exception, as \<^verbatim>\<open>UnicodeDecodeError\<close> does on a file whose bytes are not UTF-8, the
  filter raises that exception, after its one reading of the clock, and the file and the
  context are left as they were: no record is appended.
\<close>

theorem storage_raises_on_unreadable_store:
  assumes "transaction ctx = Some tx"
    and "files w path = Unreadable e"
  shows "StorageFilter_process path ctx w = Raised e ctx (w\<lparr>ticks := Suc (ticks w)\<rparr>)"
  using assms by (simp add: StorageFilter_process_def utcnow_def)

theorem storage_raises_on_unreadable_store_witness:
  "transaction (new_context ghost_tx) = Some ghost_tx \<and>
   files undecodable_world ''transactions.json'' = Unreadable UnicodeDecodeError \<and>
   StorageFilter_process ''transactions.json'' (new_context ghost_tx) undecodable_world =
     Raised UnicodeDecodeError (new_context ghost_tx)
       (undecodable_world\<lparr>ticks := Suc (ticks undecodable_world)\<rparr>) \<and>
   files (undecodable_world\<lparr>ticks := Suc (ticks undecodable_world)\<rparr>) ''transactions.json'' =
     Unreadable UnicodeDecodeError"
proof -
  have h1: "transaction (new_context ghost_tx) = Some ghost_tx"
    by (simp add: new_context_def)
  have h2: "files undecodable_world ''transactions.json'' = Unreadable UnicodeDecodeError"
    by (simp add: undecodable_world_def)
  have h3: "files (undecodable_world\<lparr>ticks := Suc (ticks undecodable_world)\<rparr>)
              ''transactions.json'' = Unreadable UnicodeDecodeError"
    by (simp add: undecodable_world_def)
  from storage_raises_on_unreadable_store [OF h1 h2] h1 h2 h3
  show ?thesis by (intro conjI)
qed

text \<open>
  Claim C8. Let a sequence of runs of the pipeline of the five filters start with a store
  that reads as empty, and let every run return. Then after the first \<open>k\<close> runs, for
  every \<open>k\<close> up to the number \<open>N\<close> of runs, the store reads as exactly \<open>k\<close> records:
  the ledger records of the first \<open>k\<close> runs, in the order of the runs. So after all
  \<open>N\<close> runs it holds \<open>N\<close> records, and the records that were there after \<open>k\<close> runs
  are its first \<open>k\<close>, unchanged.
\<close>

theorem successful_runs_append_in_order:
  assumes "load_existing (files w path) = Inr []"
    and "list_all is_Returned (run_each (standard_pipeline A users_db fxs path) cs w)"
    and "k \<le> length cs"
  shows "\<exists>records.
           load_existing
             (files (world_after (standard_pipeline A users_db fxs path) (take k cs) w) path) =
             Inr records \<and>
           length records = k \<and>
           records =
             map run_record (take k (run_each (standard_pipeline A users_db fxs path) cs w))"
proof -
  let ?P = "standard_pipeline A users_db fxs path"
  have "list_all is_Returned (run_each ?P (take k cs) w)"
    using assms(2) by (simp add: run_each_take list_all_take)
  from standard_runs_append [OF this assms(1)]
  have "load_existing (files (world_after ?P (take k cs) w) path) =
          Inr (map run_record (take k (run_each ?P cs w)))"
    by (simp add: run_each_take)
  then show ?thesis
    using assms(3) by (simp add: length_run_each)
qed

theorem successful_runs_append_in_order_witness:
  "load_existing (files fresh_world ''transactions.json'') = Inr [] \<and>
   list_all is_Returned (run_each main_pipeline (map new_context examples) fresh_world) \<and>
   (3::nat) \<le> length (map new_context examples) \<and>
   (\<exists>records.
      load_existing
        (files (world_after main_pipeline (take 3 (map new_context examples)) fresh_world)
           ''transactions.json'') = Inr records \<and>
      length records = 3 \<and>
      records =
        map run_record (take 3 (run_each main_pipeline (map new_context examples) fresh_world)))"
proof -
  have h1: "load_existing (files fresh_world ''transactions.json'') = Inr []"
    by (simp add: fresh_world_def)
  have h2: "list_all is_Returned (run_each main_pipeline (map new_context examples) fresh_world)"
    by code_simp
  have h3: "(3::nat) \<le> length (map new_context examples)"
    by (simp add: examples_def)
  from successful_runs_append_in_order [OF h1 h2 [unfolded main_pipeline_def] h3]
  have "\<exists>records.
      load_existing
        (files (world_after main_pipeline (take 3 (map new_context examples)) fresh_world)
           ''transactions.json'') = Inr records \<and>
      length records = 3 \<and>
      records =
        map run_record (take 3 (run_each main_pipeline (map new_context examples) fresh_world))"
    by (simp only: main_pipeline_def)
  with h1 h2 h3 show ?thesis by (intro conjI)
qed

subsection \<open>Fee and total of a run\<close>

text \<open>
  Claim C1, as stated: the total of a run is \<^verbatim>\<open>round(fiat_amount + fee, 2)\<close> and is
  \<^verbatim>\<open>fiat_amount + fee\<close> exactly. The second part does not hold in binary floating
  point. With the rates of the program, 0.005 BTC of user \<^verbatim>\<open>u123\<close> in EUR give the
  amount 312.8 and the fee 4.6; their float sum is 317.40000000000003, and the total is
  317.4.
\<close>

theorem total_is_not_the_float_sum_counterexample:
  "btc_amount small_eur_tx = Some (ratio 5 1000) \<and>
   gt_zero binary64 (ratio 5 1000) \<and>
   base_currency small_eur_tx \<in> {''USD'', ''EUR'', ''GBP''} \<and>
   is_Returned small_eur_run \<and>
   fiat_amount (outcome_context small_eur_run) = Some (Dbl 5502835794693325 (- 44)) \<and>
   fee (outcome_context small_eur_run) = Some (Dbl 2589569785738035 (- 49)) \<and>
   total (outcome_context small_eur_run) = Some (Dbl 2791879925248819 (- 43)) \<and>
   add binary64 (Dbl 5502835794693325 (- 44)) (Dbl 2589569785738035 (- 49)) =
     Dbl 5583759850497639 (- 44) \<and>
   Dbl 5583759850497639 (- 44) \<noteq> Dbl 2791879925248819 (- 43)"
  by code_simp

text \<open>
  Claim C1, amended. For every transaction with \<^verbatim>\<open>btc_amount > 0\<close> and
  \<^verbatim>\<open>base_currency\<close> one of USD, EUR and GBP that passes validation and authentication,
  the run of the five filters leaves a context in which \<^verbatim>\<open>fiat_amount\<close> is the
  converted amount rounded to two decimals, \<^verbatim>\<open>fee\<close> is
  \<^verbatim>\<open>round(5.00 * applied_rate, 2)\<close> with the applied rate 1.0 for USD,
  \<^verbatim>\<open>usd_to_eur\<close> for EUR and \<^verbatim>\<open>usd_to_gbp\<close> for GBP, and \<^verbatim>\<open>total\<close> is
  \<^verbatim>\<open>round(fiat_amount + fee, 2)\<close>, all three rounded by the same \<^verbatim>\<open>round\<close>. That
  holds whether the storage filter then returns or raises.
\<close>

theorem pipeline_fee_and_total:
  assumes laws: "arith_laws A"
    and tx: "transaction ctx = Some tx"
    and uid: "user_id tx = JStr uid" "uid \<noteq> []"
    and btc: "btc_amount tx = Some btc" "gt_zero A btc"
    and cur: "base_currency tx \<in> {''USD'', ''EUR'', ''GBP''}"
    and auth: "users_db uid = Some profile" "profile \<noteq> []"
  shows "\<exists>r c'.
           btc_to_currency A fxs btc (base_currency tx) = Inr r \<and>
           fx r = applied_rate A fxs (base_currency tx) \<and>
           outcome_context (Pipeline_run (standard_pipeline A users_db fxs path) ctx w) = c' \<and>
           fiat_amount c' = Some (round2 A (amount r)) \<and>
           fee c' = Some (round2 A (mul A (five A) (fx r))) \<and>
           total c' =
             Some (round2 A (add A (round2 A (amount r)) (round2 A (mul A (five A) (fx r)))))"
proof -
  from laws btc have pos: "\<not> le_zero A btc" and five: "mul A (five A) (one A) = five A"
    by (simp_all add: arith_laws_def)
  from cur have norm: "py_strip (py_upper (base_currency tx)) = base_currency tx"
    by (auto simp add: normalized_supported)
  with cur have sup: "py_strip (py_upper (base_currency tx)) \<in> SUPPORTED"
    by (simp add: SUPPORTED_def)
  have tx': "tx\<lparr>base_currency := py_strip (py_upper (base_currency tx))\<rparr> = tx"
    by (simp add: norm)
  note v = Validation_Returned [OF tx uid btc(1) pos sup, unfolded tx']
  show ?thesis
    using cur tx uid btc(1) auth five
    by (cases "load_existing (files w path)")
       (auto simp add: v Pipeline_run_def standard_pipeline_def AuthFilter_process_def
          TransformationFilter_process_def FeeFilter_process_def StorageFilter_process_def
          btc_to_currency_def applied_rate_def utcnow_def Let_def)
qed

theorem pipeline_fee_and_total_witness:
  "arith_laws binary64 \<and>
   transaction (new_context small_eur_tx) = Some small_eur_tx \<and>
   user_id small_eur_tx = JStr ''u123'' \<and>
   ''u123'' \<noteq> [] \<and>
   btc_amount small_eur_tx = Some (ratio 5 1000) \<and>
   gt_zero binary64 (ratio 5 1000) \<and>
   base_currency small_eur_tx \<in> {''USD'', ''EUR'', ''GBP''} \<and>
   USERS ''u123'' = Some [(''name'', JStr ''Alice''), (''kyc_level'', JStr ''basic'')] \<and>
   [(''name'', JStr ''Alice''), (''kyc_level'', JStr ''basic'')] \<noteq> ([] :: (string \<times> dbl json) list) \<and>
   (\<exists>r c'.
      btc_to_currency binary64 main_fx (ratio 5 1000) (base_currency small_eur_tx) = Inr r \<and>
      fx r = applied_rate binary64 main_fx (base_currency small_eur_tx) \<and>
      outcome_context (Pipeline_run main_pipeline (new_context small_eur_tx) fresh_world) = c' \<and>
      fiat_amount c' = Some (round2 binary64 (amount r)) \<and>
      fee c' = Some (round2 binary64 (mul binary64 (five binary64) (fx r))) \<and>
      total c' =
        Some (round2 binary64
                (add binary64 (round2 binary64 (amount r))
                   (round2 binary64 (mul binary64 (five binary64) (fx r))))))"
proof -
  have h2: "transaction (new_context small_eur_tx) = Some small_eur_tx"
    by (simp add: new_context_def)
  have h3: "user_id small_eur_tx = JStr ''u123''"
    by (simp add: small_eur_tx_def)
  have h4: "''u123'' \<noteq> []"
    by simp
  have h5: "btc_amount small_eur_tx = Some (ratio 5 1000)"
    by (simp add: small_eur_tx_def)
  have h6: "gt_zero binary64 (ratio 5 1000)"
    by code_simp
  have h7: "base_currency small_eur_tx \<in> {''USD'', ''EUR'', ''GBP''}"
    by (simp add: small_eur_tx_def)
  have h8: "USERS ''u123'' = Some [(''name'', JStr ''Alice''), (''kyc_level'', JStr ''basic'')]"
    by (simp add: USERS_def)
  have h9: "[(''name'', JStr ''Alice''), (''kyc_level'', JStr ''basic'')] \<noteq>
              ([] :: (string \<times> dbl json) list)"
    by simp
  from pipeline_fee_and_total
         [where users_db = USERS and fxs = main_fx and path = "''transactions.json''"
            and w = fresh_world,
          OF binary64_laws h2 h3 h4 h5 h6 h7 h8 h9]
  have "\<exists>r c'.
      btc_to_currency binary64 main_fx (ratio 5 1000) (base_currency small_eur_tx) = Inr r \<and>
      fx r = applied_rate binary64 main_fx (base_currency small_eur_tx) \<and>
      outcome_context (Pipeline_run main_pipeline (new_context small_eur_tx) fresh_world) = c' \<and>
      fiat_amount c' = Some (round2 binary64 (amount r)) \<and>
      fee c' = Some (round2 binary64 (mul binary64 (five binary64) (fx r))) \<and>
      total c' =
        Some (round2 binary64
                (add binary64 (round2 binary64 (amount r))
                   (round2 binary64 (mul binary64 (five binary64) (fx r)))))"
    by (simp only: main_pipeline_def)
  with binary64_laws h2 h3 h4 h5 h6 h7 h8 h9 show ?thesis by (intro conjI)
qed

end
